theory Spec2Isabelle
  imports
    Complex_Main
    "HOL-Library.Multiset"
    "HOL-Library.Char_ord"
    "HOL-Library.List_Lexorder"
    "HOL-Library.Product_Lexorder"
begin

section \<open>The relational store\<close>

text \<open>
  The lineage routes read five relations through SQL: \<open>layers\<close>, \<open>tables\<close>,
  \<open>columns\<close>, \<open>transformations\<close> and \<open>table_relationships\<close>. Each relation is a
  list of rows (a bag with a scan order); the columns are the ones the queries of
  \<open>src/app/api/lineage\<close> name. Nullable text columns that the handlers test for
  absence are \<open>string option\<close>. A string is the list of the bytes of its UTF-8
  encoding, so ASCII text is itself, concatenation is \<open>@\<close> and the empty string is
  \<open>[]\<close>; text is compared bytewise (the \<open>C\<close> collation) wherever a query orders by a
  text column.
\<close>

record layer_row =
  l_id :: int
  l_name :: string

record table_row =
  t_id :: int
  t_name :: string
  t_description :: "string option"
  t_layer_id :: int

record column_row =
  c_id :: int
  c_name :: string
  c_data_type :: string
  c_table_id :: int
  c_layer_id :: int

record transformation_row =
  x_id :: int
  x_name :: string
  x_description :: "string option"
  x_script :: "string option"
  x_transformation_type :: "string option"
  x_status :: "string option"
  x_created_at :: int
  x_source_table_id :: int
  x_target_table_id :: int

record relationship_row =
  r_id :: int
  r_relationship_type :: string
  r_description :: string
  r_confidence_score :: rat
  r_source_table_id :: int
  r_target_table_id :: int

record store =
  layers :: "layer_row list"
  tables :: "table_row list"
  columns :: "column_row list"
  transformations :: "transformation_row list"
  table_relationships :: "relationship_row list"

text \<open>
  A handler reaches the store through \<open>sql\<close>. A value of type \<open>db\<close> is what the store
  does with the queries of one request: either it answers them from its relations
  (\<open>Inr\<close>), or a query throws an \<open>Error\<close> with a message (\<open>Inl\<close>), which the
  handler's \<open>catch\<close> turns into its error response. A query the store refuses (a
  parameter outside the range of the column's type, say) is a query that throws.
\<close>

type_synonym db = "string + store"

record 'a NextResponse =
  status :: nat
  json :: 'a

section \<open>JavaScript helpers\<close>

text \<open>A string is truthy when it is present and not empty.\<close>

definition truthy :: "string option \<Rightarrow> bool" where
  "truthy v = (case v of None \<Rightarrow> False | Some s \<Rightarrow> s \<noteq> [])"

text \<open>\<open>v || ''\<close> on an optional string.\<close>

definition or_empty :: "string option \<Rightarrow> string" where
  "or_empty v = (case v of None \<Rightarrow> [] | Some s \<Rightarrow> s)"

text \<open>
  Two functions of the JavaScript runtime are not given by the handlers' text:
  \<open>String.prototype.toUpperCase\<close>, which maps characters by the Unicode case tables,
  and \<open>parseInt\<close>, whose result is a double. The handlers that call them take them as
  the parameters \<open>toUpperCase\<close> and \<open>parseInt\<close> (\<open>None\<close> is \<open>NaN\<close>).
\<close>


text \<open>The number of bytes of the first character of a string.\<close>

definition first_char_bytes :: "string \<Rightarrow> nat" where
  "first_char_bytes s =
     (case s of
        [] \<Rightarrow> 0
      | c # _ \<Rightarrow>
          if of_char c < (128::nat) then 1
          else if of_char c < (224::nat) then 2
          else if of_char c < (240::nat) then 3
          else 4)"

text \<open>
  \<open>s.charAt(0).toUpperCase() + s.slice(1)\<close>. \<open>charAt(0)\<close> is the first code unit. For
  a first character of the basic plane that is the character, and \<open>slice(1)\<close> is the
  rest. For a first character beyond the basic plane it is a lone surrogate, which
  no case mapping changes, and \<open>slice(1)\<close> starts with the other half: the sum is the
  string itself.
\<close>

definition capitalize :: "(string \<Rightarrow> string) \<Rightarrow> string \<Rightarrow> string" where
  "capitalize toUpperCase s =
     (if first_char_bytes s = 4 then s
      else toUpperCase (take (first_char_bytes s) s) @ drop (first_char_bytes s) s)"

text \<open>A non-negative integer in a template literal: its decimal digits.\<close>

definition digit_char :: "nat \<Rightarrow> char" where
  "digit_char d = char_of (48 + d)"

function show_nat :: "nat \<Rightarrow> string" where
  "show_nat n = (if n < 10 then [digit_char n] else show_nat (n div 10) @ [digit_char (n mod 10)])"
  by pat_completeness auto
termination
  by (relation "measure (\<lambda>n. n)") auto

declare show_nat.simps [simp del]

text \<open>\<open>[...new Set(xs)]\<close>: the distinct values in order of first occurrence.\<close>

fun set_values :: "'a list \<Rightarrow> 'a list" where
  "set_values [] = []"
| "set_values (x # xs) = x # set_values (filter (\<lambda>y. y \<noteq> x) xs)"

text \<open>\<open>Math.max(...xs)\<close> on a non-empty list of depths.\<close>

definition Math_max :: "nat list \<Rightarrow> nat" where
  "Math_max xs = foldr max xs 0"

section \<open>The lineage-chain query of the mermaid route\<close>

text \<open>
  \<open>src/app/api/lineage/mermaid/route.ts\<close>, lines 83..102: a recursive common table
  expression. Its rows carry the columns \<open>id, name, layer, layer_id, depth,
  description\<close>.
\<close>

record lineage_row =
  lr_id :: int
  lr_name :: string
  lr_layer :: string
  lr_layer_id :: int
  lr_depth :: nat
  lr_description :: "string option"

text \<open>
  The non-recursive term: the tables called \<open>table_name\<close> joined with the layer
  called \<open>layer\<close>, at depth 0.
\<close>

definition lineage_seed :: "store \<Rightarrow> string \<Rightarrow> string \<Rightarrow> lineage_row list" where
  "lineage_seed st tn ly =
     [\<lparr>lr_id = t_id t, lr_name = t_name t, lr_layer = l_name l, lr_layer_id = l_id l,
       lr_depth = 0, lr_description = t_description t\<rparr>.
        t \<leftarrow> tables st, l \<leftarrow> layers st, t_layer_id t = l_id l,
        t_name t = tn \<and> l_name l = ly]"

text \<open>
  The recursive term, evaluated on a working table \<open>lc\<close>: every row of depth below 3
  is joined with the transformations leaving its table, the target table and the
  target's layer. \<open>UNION ALL\<close> keeps every row.
\<close>

definition lineage_step :: "store \<Rightarrow> lineage_row list \<Rightarrow> lineage_row list" where
  "lineage_step st lc =
     [\<lparr>lr_id = t_id tt, lr_name = t_name tt, lr_layer = l_name tly, lr_layer_id = l_id tly,
       lr_depth = lr_depth r + 1, lr_description = t_description tt\<rparr>.
        r \<leftarrow> lc, tr \<leftarrow> transformations st, lr_id r = x_source_table_id tr,
        tt \<leftarrow> tables st, x_target_table_id tr = t_id tt,
        tly \<leftarrow> layers st, t_layer_id tt = l_id tly,
        lr_depth r < 3]"

text \<open>
  The measure under which the iteration below ends: the largest distance of a
  working-table row from depth 4.
\<close>

definition chain_slack :: "lineage_row list \<Rightarrow> nat" where
  "chain_slack lc = (if lc = [] then 0 else Suc (Max (set (map (\<lambda>r. 4 - lr_depth r) lc))))"

text \<open>
  The evaluation of \<open>WITH RECURSIVE\<close>: the working table is appended to the result
  and replaced by the recursive term's rows, until it is empty.
\<close>

function lineage_chain_iter :: "store \<Rightarrow> lineage_row list \<Rightarrow> lineage_row list" where
  "lineage_chain_iter st lc =
     (if lc = [] then [] else lc @ lineage_chain_iter st (lineage_step st lc))"
  by pat_completeness auto
termination
proof (relation "measure (\<lambda>(st, lc). chain_slack lc)")
  show "wf (measure (\<lambda>(st, lc). chain_slack lc))" by simp
next
  fix st :: store and lc :: "lineage_row list"
  assume ne: "lc \<noteq> []"
  let ?f = "\<lambda>r. 4 - lr_depth r"
  have "chain_slack (lineage_step st lc) < chain_slack lc"
  proof (cases "lineage_step st lc = []")
    case True
    with ne show ?thesis by (simp add: chain_slack_def)
  next
    case False
    have "Max (?f ` set (lineage_step st lc)) < Max (?f ` set lc)"
    proof (subst Max_less_iff)
      show "finite (?f ` set (lineage_step st lc))" by simp
      show "?f ` set (lineage_step st lc) \<noteq> {}" using False by simp
      show "\<forall>a \<in> ?f ` set (lineage_step st lc). a < Max (?f ` set lc)"
      proof
        fix a assume "a \<in> ?f ` set (lineage_step st lc)"
        then obtain r' where r': "r' \<in> set (lineage_step st lc)" and a: "a = ?f r'" by auto
        from r' obtain r
          where r: "r \<in> set lc" "lr_depth r < 3" "lr_depth r' = Suc (lr_depth r)"
          by (auto simp: lineage_step_def split: if_splits)
        have "?f r \<le> Max (?f ` set lc)" using r(1) by (intro Max_ge) auto
        moreover have "a < ?f r" using a r(2,3) by simp
        ultimately show "a < Max (?f ` set lc)" by simp
      qed
    qed
    with ne False show ?thesis by (simp add: chain_slack_def)
  qed
  then show "((st, lineage_step st lc), (st, lc)) \<in> measure (\<lambda>(st, lc). chain_slack lc)"
    by simp
qed

declare lineage_chain_iter.simps [simp del]

text \<open>\<open>SELECT * FROM lineage_chain ORDER BY layer_id, name\<close>.\<close>

definition lineage_chain :: "store \<Rightarrow> string \<Rightarrow> string \<Rightarrow> lineage_row list" where
  "lineage_chain st tn ly =
     sort_key (\<lambda>r. (lr_layer_id r, lr_name r)) (lineage_chain_iter st (lineage_seed st tn ly))"

section \<open>The mermaid route: nodes, edges and the diagram\<close>

record LineageNode =
  n_id :: int
  n_name :: string
  n_layer :: string
  n_layer_id :: int
  n_depth :: nat
  n_column_count :: nat
  n_description :: string

record LineageEdge =
  e_source :: string
  e_target :: string
  e_source_layer :: string
  e_target_layer :: string
  e_transformation_type :: "string option"

record MermaidLineageResponse =
  nodes :: "LineageNode list"
  edges :: "LineageEdge list"
  mermaid_syntax :: string
  selected_table :: string
  selected_layer :: string
  total_depth :: nat
  layers_involved :: "string list"
  error :: "string option"

record MermaidRequestBody =
  table_name :: "string option"
  layer :: "string option"
  direction :: "string option"

text \<open>\<open>SELECT COUNT(*) FROM columns c WHERE c.table_id = id\<close>.\<close>

definition column_count :: "store \<Rightarrow> int \<Rightarrow> nat" where
  "column_count st i = length (filter (\<lambda>c. c_table_id c = i) (columns st))"

text \<open>
  One node per row of the chain (lines 107..126); an absent or empty description is
  replaced by the fallback text.
\<close>

definition node_of_row :: "store \<Rightarrow> lineage_row \<Rightarrow> LineageNode" where
  "node_of_row st row =
     \<lparr>n_id = lr_id row, n_name = lr_name row, n_layer = lr_layer row,
      n_layer_id = lr_layer_id row, n_depth = lr_depth row,
      n_column_count = column_count st (lr_id row),
      n_description =
        (if truthy (lr_description row) then or_empty (lr_description row)
         else lr_name row @ '' table in '' @ lr_layer row @ '' layer'')\<rparr>"

definition build_nodes :: "store \<Rightarrow> lineage_row list \<Rightarrow> LineageNode list" where
  "build_nodes st rows = map (node_of_row st) rows"

text \<open>
  The transformation query of lines 144..157 for one pair of table ids: the
  transformation types of the joined rows, in scan order.
\<close>

definition transformation_between :: "store \<Rightarrow> int \<Rightarrow> int \<Rightarrow> string option list" where
  "transformation_between st sid tid =
     [x_transformation_type t.
        t \<leftarrow> transformations st,
        s \<leftarrow> tables st, x_source_table_id t = t_id s,
        tt \<leftarrow> tables st, x_target_table_id t = t_id tt,
        sl \<leftarrow> layers st, t_layer_id s = l_id sl,
        tly \<leftarrow> layers st, t_layer_id tt = l_id tly,
        t_id s = sid \<and> t_id tt = tid]"

text \<open>
  The body of the edge loop for \<open>sourceNode = nodes[i]\<close> and \<open>targetNode =
  nodes[i + 1]\<close>: at most one edge, from the first row of the query.
\<close>

definition edge_between :: "store \<Rightarrow> LineageNode \<Rightarrow> LineageNode \<Rightarrow> LineageEdge list" where
  "edge_between st sourceNode targetNode =
     (case transformation_between st (n_id sourceNode) (n_id targetNode) of
        [] \<Rightarrow> []
      | ty # _ \<Rightarrow>
          [\<lparr>e_source = n_name sourceNode, e_target = n_name targetNode,
            e_source_layer = n_layer sourceNode, e_target_layer = n_layer targetNode,
            e_transformation_type = ty\<rparr>])"

text \<open>The loop \<open>for (let i = 0; i < nodes.length - 1; i++)\<close> of lines 139..169.\<close>

fun build_edges :: "store \<Rightarrow> LineageNode list \<Rightarrow> LineageEdge list" where
  "build_edges st (sourceNode # targetNode # rest) =
     edge_between st sourceNode targetNode @ build_edges st (targetNode # rest)"
| "build_edges st _ = []"

text \<open>\<open>nodes.length > 0 ? Math.max(...nodes.map(n => n.depth)) : 0\<close>.\<close>

definition totalDepth :: "LineageNode list \<Rightarrow> nat" where
  "totalDepth ns = (if ns = [] then 0 else Math_max (map n_depth ns))"

definition layersInvolved :: "LineageNode list \<Rightarrow> string list" where
  "layersInvolved ns = set_values (map n_layer ns)"

subsection \<open>Grouping by layer\<close>

text \<open>
  \<open>nodesByLayer\<close> is a plain object used as a dictionary (lines 184..188). A layer
  name that is a property of \<open>Object.prototype\<close> is found on the empty object, is
  truthy and has no \<open>push\<close>: the reducer throws a \<open>TypeError\<close>, which the handler
  catches.
\<close>

definition object_prototype_keys :: "string list" where
  "object_prototype_keys =
     [''constructor'', ''__proto__'', ''hasOwnProperty'', ''isPrototypeOf'',
      ''propertyIsEnumerable'', ''toLocaleString'', ''toString'', ''valueOf'',
      ''__defineGetter__'', ''__defineSetter__'', ''__lookupGetter__'',
      ''__lookupSetter__'']"

definition nodesByLayer_step ::
  "(string \<times> LineageNode list) list \<Rightarrow> LineageNode \<Rightarrow> (string \<times> LineageNode list) list" where
  "nodesByLayer_step acc node =
     (if n_layer node \<in> set (map fst acc)
      then map (\<lambda>(k, v). if k = n_layer node then (k, v @ [node]) else (k, v)) acc
      else acc @ [(n_layer node, [node])])"

definition nodesByLayer ::
  "LineageNode list \<Rightarrow> string + (string \<times> LineageNode list) list" where
  "nodesByLayer ns =
     (if list_ex (\<lambda>n. n_layer n \<in> set object_prototype_keys) ns
      then Inl ''acc[node.layer].push is not a function''
      else Inr (foldl nodesByLayer_step [] ns))"

text \<open>
  \<open>Object.entries\<close> lists the keys that are array indices first, in ascending numeric
  order, and then the other keys in insertion order. An array index is a canonical
  decimal numeral below \<open>2^32 - 1\<close>.
\<close>

definition is_digit :: "char \<Rightarrow> bool" where
  "is_digit c = (CHR ''0'' \<le> c \<and> c \<le> CHR ''9'')"

definition digit_value :: "char \<Rightarrow> nat" where
  "digit_value c = of_char c - 48"

definition decimal_value :: "string \<Rightarrow> nat" where
  "decimal_value s = foldl (\<lambda>a c. 10 * a + digit_value c) 0 s"

definition is_array_index :: "string \<Rightarrow> bool" where
  "is_array_index s =
     (s \<noteq> [] \<and> list_all is_digit s \<and> (length s = 1 \<or> hd s \<noteq> CHR ''0'')
      \<and> decimal_value s < 4294967295)"

definition Object_entries :: "(string \<times> 'a) list \<Rightarrow> (string \<times> 'a) list" where
  "Object_entries acc =
     sort_key (\<lambda>(k, v). decimal_value k) (filter (\<lambda>(k, v). is_array_index k) acc)
     @ filter (\<lambda>(k, v). \<not> is_array_index k) acc"

subsection \<open>The diagram text\<close>

definition layerTitle :: "(string \<Rightarrow> string) \<Rightarrow> string \<Rightarrow> string" where
  "layerTitle toUpperCase layerName = capitalize toUpperCase layerName @ '' Layer''"

definition layerDescription :: "string \<Rightarrow> string" where
  "layerDescription layerName =
     (if layerName = ''bronze'' then ''Raw Data''
      else if layerName = ''silver'' then ''Cleansed Data''
      else ''Business Ready'')"

definition nodeId :: "(string \<Rightarrow> string) \<Rightarrow> LineageNode \<Rightarrow> string" where
  "nodeId toUpperCase node = toUpperCase (n_layer node) @ ''_'' @ n_name node"

definition nodeLabel :: "LineageNode \<Rightarrow> string" where
  "nodeLabel node =
     n_name node @ ''<br/>'' @ show_nat (n_column_count node) @ '' columns<br/>''
     @ n_description node"

definition node_line :: "(string \<Rightarrow> string) \<Rightarrow> LineageNode \<Rightarrow> string" where
  \<open>node_line toUpperCase node =
     ''        '' @ nodeId toUpperCase node @ ''["'' @ nodeLabel node @ ''"]\<newline>''\<close>

definition subgraph_header :: "(string \<Rightarrow> string) \<Rightarrow> string \<Rightarrow> string" where
  \<open>subgraph_header toUpperCase layerName =
     ''    subgraph "'' @ layerTitle toUpperCase layerName @ '' - ''
     @ layerDescription layerName @ ''"\<newline>''\<close>

definition subgraph_text ::
  "(string \<Rightarrow> string) \<Rightarrow> string \<times> LineageNode list \<Rightarrow> string" where
  "subgraph_text toUpperCase entry =
     subgraph_header toUpperCase (fst entry)
     @ concat (map (node_line toUpperCase) (snd entry))
     @ ''    end\<newline>\<newline>''"

text \<open>A template literal prints an absent transformation type as \<open>null\<close>.\<close>

definition edge_line :: "(string \<Rightarrow> string) \<Rightarrow> LineageEdge \<Rightarrow> string" where
  "edge_line toUpperCase edge =
     ''    '' @ toUpperCase (e_source_layer edge) @ ''_'' @ e_source edge
     @ '' -->|''
     @ (case e_transformation_type edge of None \<Rightarrow> ''null'' | Some ty \<Rightarrow> ty)
     @ ''| '' @ toUpperCase (e_target_layer edge) @ ''_'' @ e_target edge @ ''\<newline>''"

definition style_block :: string where
  "style_block =
     ''\<newline>    %% Layer Styling\<newline>''
     @ ''    classDef bronze fill:#fff3e0,stroke:#e65100,stroke-width:2px,color:#000\<newline>''
     @ ''    classDef silver fill:#f3e5f5,stroke:#4a148c,stroke-width:2px,color:#000\<newline>''
     @ ''    classDef gold fill:#e8f5e8,stroke:#1b5e20,stroke-width:2px,color:#000\<newline>\<newline>''"

definition class_lines ::
  "(string \<Rightarrow> string) \<Rightarrow> string \<times> LineageNode list \<Rightarrow> string" where
  "class_lines toUpperCase entry =
     concat (map (\<lambda>node. ''    class '' @ nodeId toUpperCase node @ '' '' @ fst entry
                          @ ''\<newline>'')
       (snd entry))"

text \<open>Lines 181..227, for the grouped nodes and the edge list.\<close>

definition mermaidSyntax ::
  "(string \<Rightarrow> string) \<Rightarrow> (string \<times> LineageNode list) list \<Rightarrow> LineageEdge list
   \<Rightarrow> string" where
  "mermaidSyntax toUpperCase acc es =
     ''graph LR\<newline>\<newline>''
     @ concat (map (subgraph_text toUpperCase) (Object_entries acc))
     @ concat (map (edge_line toUpperCase) es)
     @ style_block
     @ concat (map (class_lines toUpperCase) (Object_entries acc))"

subsection \<open>The handler\<close>

text \<open>The response of the \<open>catch\<close> block (lines 254..272).\<close>

definition database_error :: "string \<Rightarrow> MermaidLineageResponse NextResponse" where
  "database_error msg =
     \<lparr>status = 500,
      json = \<lparr>nodes = [], edges = [], mermaid_syntax = [], selected_table = [],
              selected_layer = [], total_depth = 0, layers_involved = [],
              error = Some (''Database error: '' @ msg)\<rparr>\<rparr>"

text \<open>
  \<open>POST\<close> of \<open>src/app/api/lineage/mermaid/route.ts\<close>. The request body is the parsed
  JSON object, and \<open>toUpperCase\<close> the runtime's function. \<open>direction\<close> is read
  from the body (with the default \<open>both\<close>) and logged; nothing else in the handler
  refers to it.
\<close>

definition mermaid_POST ::
  "(string \<Rightarrow> string) \<Rightarrow> db \<Rightarrow> MermaidRequestBody
   \<Rightarrow> MermaidLineageResponse NextResponse" where
  "mermaid_POST toUpperCase d body =
     (if \<not> (truthy (table_name body) \<and> truthy (layer body)) then
        \<lparr>status = 400,
         json = \<lparr>nodes = [], edges = [], mermaid_syntax = [],
                 selected_table = or_empty (table_name body),
                 selected_layer = or_empty (layer body),
                 total_depth = 0, layers_involved = [],
                 error = Some ''table_name and layer are required''\<rparr>\<rparr>
      else
        (case d of
           Inl msg \<Rightarrow> database_error msg
         | Inr st \<Rightarrow>
             (let ns = build_nodes st
                         (lineage_chain st (or_empty (table_name body)) (or_empty (layer body)));
                  es = build_edges st ns
              in case nodesByLayer ns of
                   Inl msg \<Rightarrow> database_error msg
                 | Inr acc \<Rightarrow>
                     \<lparr>status = 200,
                      json = \<lparr>nodes = ns, edges = es,
                              mermaid_syntax = mermaidSyntax toUpperCase acc es,
                              selected_table = or_empty (table_name body),
                              selected_layer = or_empty (layer body),
                              total_depth = totalDepth ns,
                              layers_involved = layersInvolved ns,
                              error = None\<rparr>\<rparr>)))"

section \<open>The relationships route\<close>
















section \<open>The transformations route\<close>

text \<open>
  \<open>POST\<close> of the transformations route (\<open>src/app/api/lineage/tables/route.ts\<close>, lines
  93..305). The body is the parsed JSON object; \<open>table_id\<close> is a number.
\<close>

record Transformation =
  tf_id :: int
  tf_name :: string
  tf_description :: "string option"
  tf_source_table :: string
  tf_target_table :: string
  tf_source_layer :: string
  tf_target_layer :: string
  tf_transformation_type :: "string option"
  tf_confidence_score :: rat
  tf_created_at :: int
  tf_script :: "string option"
  tf_status :: "string option"

record TransformationSummary =
  ts_total :: nat
  ts_table_name :: string
  ts_layers_involved :: "string list"
  ts_avg_confidence :: rat

record TransformationResponse =
  tr_transformations :: "Transformation list"
  tr_summary :: TransformationSummary
  tr_error :: "string option"

record TransformationRequestBody =
  b_table_name :: "string option"
  b_table_id :: "int option"
  b_source_layer :: "string option"
  b_target_layer :: "string option"
  b_direction :: "string option"

text \<open>A number is truthy when it is present and not zero.\<close>

definition truthy_number :: "int option \<Rightarrow> bool" where
  "truthy_number v = (case v of None \<Rightarrow> False | Some n \<Rightarrow> n \<noteq> 0)"

definition show_int :: "int \<Rightarrow> string" where
  "show_int i = (if i < 0 then ''-'' @ show_nat (nat (- i)) else show_nat (nat i))"

type_synonym transformation_join =
  "transformation_row \<times> table_row \<times> table_row \<times> layer_row \<times> layer_row"

definition transformation_from :: "store \<Rightarrow> transformation_join list" where
  "transformation_from st =
     [(t, s, tt, sl, tly).
        t \<leftarrow> transformations st,
        s \<leftarrow> tables st, x_source_table_id t = t_id s,
        tt \<leftarrow> tables st, x_target_table_id t = t_id tt,
        sl \<leftarrow> layers st, t_layer_id s = l_id sl,
        tly \<leftarrow> layers st, t_layer_id tt = l_id tly]"

text \<open>
  \<open>result.rows.map(row => ...)\<close> of lines 171..184 and 235..248: the row's columns,
  and the constant confidence.
\<close>

definition transformation_of_row :: "transformation_join \<Rightarrow> Transformation" where
  "transformation_of_row j =
     (case j of (t, s, tt, sl, tly) \<Rightarrow>
        \<lparr>tf_id = x_id t, tf_name = x_name t, tf_description = x_description t,
         tf_source_table = t_name s, tf_target_table = t_name tt,
         tf_source_layer = l_name sl, tf_target_layer = l_name tly,
         tf_transformation_type = x_transformation_type t,
         tf_confidence_score = 1,
         tf_created_at = x_created_at t, tf_script = x_script t, tf_status = x_status t\<rparr>)"

text \<open>The \<open>whereClause\<close> of lines 122..144, by name and by id.\<close>

definition table_name_where :: "string \<Rightarrow> string \<Rightarrow> transformation_join \<Rightarrow> bool" where
  "table_name_where dir n j =
     (case j of (t, s, tt, sl, tly) \<Rightarrow>
        if dir = ''upstream'' then t_name tt = n
        else if dir = ''downstream'' then t_name s = n
        else (t_name s = n \<or> t_name tt = n))"

definition table_id_where :: "string \<Rightarrow> int \<Rightarrow> transformation_join \<Rightarrow> bool" where
  "table_id_where dir i j =
     (case j of (t, s, tt, sl, tly) \<Rightarrow>
        if dir = ''upstream'' then x_target_table_id t = i
        else if dir = ''downstream'' then x_source_table_id t = i
        else (x_source_table_id t = i \<or> x_target_table_id t = i))"

text \<open>\<open>ORDER BY sl.id, tl.id, t.created_at DESC\<close> and \<open>ORDER BY t.created_at DESC\<close>.\<close>

definition table_order :: "transformation_join \<Rightarrow> int \<times> int \<times> int" where
  "table_order j = (case j of (t, s, tt, sl, tly) \<Rightarrow> (l_id sl, l_id tly, - x_created_at t))"

definition layer_order :: "transformation_join \<Rightarrow> int" where
  "layer_order j = (case j of (t, s, tt, sl, tly) \<Rightarrow> - x_created_at t)"

definition transformation_failure ::
  "nat \<Rightarrow> string \<Rightarrow> TransformationResponse NextResponse" where
  "transformation_failure code msg =
     \<lparr>status = code,
      json = \<lparr>tr_transformations = [],
              tr_summary = \<lparr>ts_total = 0, ts_table_name = [], ts_layers_involved = [],
                            ts_avg_confidence = 0\<rparr>,
              tr_error = Some msg\<rparr>\<rparr>"

definition transformations_POST ::
  "db \<Rightarrow> TransformationRequestBody \<Rightarrow> TransformationResponse NextResponse" where
  "transformations_POST d body =
     (let dir = (case b_direction body of None \<Rightarrow> ''both'' | Some v \<Rightarrow> v) in
      if truthy (b_table_name body) \<or> truthy_number (b_table_id body) then
        (case d of
           Inl msg \<Rightarrow> transformation_failure 500 (''Database error: '' @ msg)
         | Inr st \<Rightarrow>
             (let wh = (if truthy (b_table_name body)
                        then table_name_where dir (or_empty (b_table_name body))
                        else table_id_where dir (the (b_table_id body)));
                  ts = map transformation_of_row
                         (sort_key table_order (filter wh (transformation_from st)))
              in \<lparr>status = 200,
                  json = \<lparr>tr_transformations = ts,
                          tr_summary =
                            \<lparr>ts_total = length ts,
                             ts_table_name =
                               (if truthy (b_table_name body) then or_empty (b_table_name body)
                                else ''Table ID '' @ show_int (the (b_table_id body))),
                             ts_layers_involved =
                               set_values (map tf_source_layer ts @ map tf_target_layer ts),
                             ts_avg_confidence = 1\<rparr>,
                          tr_error = None\<rparr>\<rparr>))
      else if truthy (b_source_layer body) \<and> truthy (b_target_layer body) then
        (case d of
           Inl msg \<Rightarrow> transformation_failure 500 (''Database error: '' @ msg)
         | Inr st \<Rightarrow>
             (let ts = map transformation_of_row
                         (sort_key layer_order
                            (filter (\<lambda>(t, s, tt, sl, tly).
                                       l_name sl = or_empty (b_source_layer body)
                                       \<and> l_name tly = or_empty (b_target_layer body))
                               (transformation_from st)))
              in \<lparr>status = 200,
                  json = \<lparr>tr_transformations = ts,
                          tr_summary =
                            \<lparr>ts_total = length ts,
                             ts_table_name =
                               or_empty (b_source_layer body)
                               @ [CHR 0x20, CHR 0xE2, CHR 0x86, CHR 0x92, CHR 0x20]
                               @ or_empty (b_target_layer body),
                             ts_layers_involved =
                               [or_empty (b_source_layer body), or_empty (b_target_layer body)],
                             ts_avg_confidence = 1\<rparr>,
                          tr_error = None\<rparr>\<rparr>))
      else
        transformation_failure 400
          ''Either table_name/table_id or source_layer/target_layer must be provided'')"

section \<open>The search route\<close>

text \<open>
  \<open>GET\<close> of \<open>src/app/api/lineage/search/route.ts\<close>. Its three queries match with the
  store's \<open>ILIKE\<close> operator; they are taken as the store's interface: each receives
  the pattern \<open>%query%\<close> and returns its rows, or throws. \<open>query.length\<close> is the
  number of UTF-16 code units of the query.
\<close>

record SearchTable =
  stb_id :: int
  stb_name :: string
  stb_description :: string
  stb_layer :: string

record SearchColumn =
  sc_id :: int
  sc_name :: string
  sc_data_type :: string
  sc_table_name :: string
  sc_layer :: string

record SearchTransformation =
  sx_id :: int
  sx_name :: string
  sx_description :: string
  sx_transformation_type :: string
  sx_source_table :: string
  sx_target_table :: string








section \<open>Examples\<close>

text \<open>
  The examples are in ASCII, where the two functions of the runtime are these:
  \<open>toUpperCase\<close> shifts the letters a to z, and \<open>parseInt\<close> skips white space, reads
  a sign, takes a \<open>0x\<close> prefix for base 16 and reads the longest prefix of digits
  (none is \<open>NaN\<close>). They stand for the runtime's functions on ASCII strings, and for
  \<open>parseInt\<close> on numerals below \<open>2^53\<close>; the examples apply them to nothing else.
\<close>

definition ascii_toUpperCase :: "string \<Rightarrow> string" where
  "ascii_toUpperCase s =
     map (\<lambda>c. if CHR ''a'' \<le> c \<and> c \<le> CHR ''z'' then char_of (of_char c - (32::nat)) else c) s"





definition mk_table :: "int \<Rightarrow> string \<Rightarrow> int \<Rightarrow> table_row" where
  "mk_table i n l = \<lparr>t_id = i, t_name = n, t_description = None, t_layer_id = l\<rparr>"

definition mk_transformation :: "int \<Rightarrow> int \<Rightarrow> int \<Rightarrow> string \<Rightarrow> transformation_row" where
  "mk_transformation i s t ty =
     \<lparr>x_id = i, x_name = ty, x_description = None, x_script = None,
      x_transformation_type = Some ty, x_status = None, x_created_at = i,
      x_source_table_id = s, x_target_table_id = t\<rparr>"

definition mk_relationship :: "int \<Rightarrow> int \<Rightarrow> int \<Rightarrow> rat \<Rightarrow> relationship_row" where
  "mk_relationship i s t c =
     \<lparr>r_id = i, r_relationship_type = ''lineage'', r_description = [],
      r_confidence_score = c, r_source_table_id = s, r_target_table_id = t\<rparr>"

definition three_layers :: "layer_row list" where
  "three_layers =
     [\<lparr>l_id = 1, l_name = ''bronze''\<rparr>, \<lparr>l_id = 2, l_name = ''silver''\<rparr>,
      \<lparr>l_id = 3, l_name = ''gold''\<rparr>]"

text \<open>
  The scenario of the specification: \<open>orders\<close> (bronze), \<open>orders_clean\<close> (silver) and
  \<open>orders_agg\<close> (gold), with a cleansing and an aggregation transformation, and two
  relationships along the same chain.
\<close>

definition orders_store :: store where
  "orders_store =
     \<lparr>layers = three_layers,
      tables = [mk_table 1 ''orders'' 1, mk_table 2 ''orders_clean'' 2,
                mk_table 3 ''orders_agg'' 3],
      columns = [],
      transformations = [mk_transformation 1 1 2 ''cleansing'',
                         mk_transformation 2 2 3 ''aggregation''],
      table_relationships = [mk_relationship 1 1 2 (1/2), mk_relationship 2 2 3 (9/10)]\<rparr>"

text \<open>A cycle of three transformations: A to B, B to C, C to A.\<close>

definition cycle_store :: store where
  "cycle_store =
     \<lparr>layers = three_layers,
      tables = [mk_table 1 ''A'' 1, mk_table 2 ''B'' 2, mk_table 3 ''C'' 3],
      columns = [],
      transformations = [mk_transformation 1 1 2 ''cleansing'',
                         mk_transformation 2 2 3 ''aggregation'',
                         mk_transformation 3 3 1 ''feedback''],
      table_relationships = []\<rparr>"

text \<open>Two paths from A to D: through B and through C.\<close>

definition diamond_store :: store where
  "diamond_store =
     \<lparr>layers = three_layers,
      tables = [mk_table 1 ''A'' 1, mk_table 2 ''B'' 2, mk_table 3 ''C'' 2,
                mk_table 4 ''D'' 3],
      columns = [],
      transformations = [mk_transformation 1 1 2 ''cleansing'',
                         mk_transformation 2 1 3 ''cleansing'',
                         mk_transformation 3 2 4 ''aggregation'',
                         mk_transformation 4 3 4 ''aggregation''],
      table_relationships = []\<rparr>"

definition request :: "string \<Rightarrow> string \<Rightarrow> string \<Rightarrow> MermaidRequestBody" where
  "request tn ly dir = \<lparr>table_name = Some tn, layer = Some ly, direction = Some dir\<rparr>"


text \<open>A store whose only layer is called \<open>constructor\<close>.\<close>

definition constructor_store :: store where
  "constructor_store =
     \<lparr>layers = [\<lparr>l_id = 1, l_name = ''constructor''\<rparr>],
      tables = [mk_table 1 ''kpis'' 1],
      columns = [],
      transformations = [],
      table_relationships = []\<rparr>"



section \<open>The lineage chain on graphs that are not chains\<close>

text \<open>The response does not depend on the direction the request asks for.\<close>

lemma mermaid_POST_direction: "mermaid_POST toUpperCase d (body\<lparr>direction := x\<rparr>) = mermaid_POST toUpperCase d body"
  by (cases d) (simp_all add: mermaid_POST_def Let_def split: sum.split)

text \<open>
  The recursive query is total (its iteration is a terminating function), and no
  row it returns lies deeper than 3.
\<close>

lemma lineage_step_depth:
  assumes "r \<in> set (lineage_step st lc)"
  shows "lr_depth r \<le> 3"
  using assms by (auto simp: lineage_step_def split: if_splits)

lemma lineage_chain_iter_depth:
  assumes "\<forall>r\<in>set lc. lr_depth r \<le> 3"
  shows "\<forall>r\<in>set (lineage_chain_iter st lc). lr_depth r \<le> 3"
  using assms
proof (induction st lc rule: lineage_chain_iter.induct)
  case (1 st lc)
  show ?case
  proof (cases "lc = []")
    case True
    then show ?thesis by (simp add: lineage_chain_iter.simps)
  next
    case False
    have "\<forall>r\<in>set (lineage_chain_iter st (lineage_step st lc)). lr_depth r \<le> 3"
      using False lineage_step_depth by (intro "1.IH") auto
    with False "1.prems" show ?thesis
      by (subst lineage_chain_iter.simps) auto
  qed
qed

lemma lineage_chain_depth:
  assumes "r \<in> set (lineage_chain st tn ly)"
  shows "lr_depth r \<le> 3"
proof -
  have "\<forall>r\<in>set (lineage_seed st tn ly). lr_depth r \<le> 3"
    by (auto simp: lineage_seed_def split: if_splits)
  from lineage_chain_iter_depth [OF this] assms show ?thesis
    by (simp add: lineage_chain_def)
qed

lemma mermaid_POST_nodes:
  "nodes (json (mermaid_POST toUpperCase d body)) = []
   \<or> (\<exists>st. nodes (json (mermaid_POST toUpperCase d body)) =
          build_nodes st (lineage_chain st (or_empty (table_name body)) (or_empty (layer body))))"
proof (cases "truthy (table_name body) \<and> truthy (layer body)")
  case False
  then show ?thesis by (simp add: mermaid_POST_def)
next
  case True
  show ?thesis
  proof (cases d)
    case (Inl msg)
    with True show ?thesis by (simp add: mermaid_POST_def database_error_def)
  next
    case (Inr st)
    let ?ns = "build_nodes st (lineage_chain st (or_empty (table_name body)) (or_empty (layer body)))"
    show ?thesis
    proof (cases "nodesByLayer ?ns")
      case (Inl msg)
      with True \<open>d = Inr st\<close> show ?thesis
        by (simp add: mermaid_POST_def database_error_def Let_def)
    next
      case (Inr acc)
      with True \<open>d = Inr st\<close> have "nodes (json (mermaid_POST toUpperCase d body)) = ?ns"
        by (simp add: mermaid_POST_def Let_def)
      then show ?thesis by blast
    qed
  qed
qed

lemma mermaid_POST_depth:
  assumes "n \<in> set (nodes (json (mermaid_POST toUpperCase d body)))"
  shows "n_depth n \<le> 3"
proof -
  from mermaid_POST_nodes [of toUpperCase d body] assms obtain st where
    "n \<in> set (build_nodes st (lineage_chain st (or_empty (table_name body)) (or_empty (layer body))))"
    by auto
  then obtain r where r: "r \<in> set (lineage_chain st (or_empty (table_name body)) (or_empty (layer body)))"
    and n: "n = node_of_row st r"
    by (auto simp: build_nodes_def)
  from lineage_chain_depth [OF r] show ?thesis by (simp add: n node_of_row_def)
qed

text \<open>
  C1. The node list of a lineage-chain resolution should hold each table once. On the
  diamond the handler returns table D twice, once per path from A: the recursive
  query is a \<open>UNION ALL\<close> with no visited set, and every row becomes a node.
\<close>

theorem diamond_nodes:
  "map (\<lambda>n. (n_id n, n_name n, n_depth n))
     (nodes (json (mermaid_POST toUpperCase (Inr diamond_store) (request ''A'' ''bronze'' ''both''))))
   = [(1, ''A'', 0), (2, ''B'', 1), (3, ''C'', 1), (4, ''D'', 2), (4, ''D'', 2)]"
  by code_simp

text \<open>
  C2. A request with direction \<open>upstream\<close> should return ancestors of the seed only.
  The handler reads \<open>direction\<close> only to log it: asked for the upstream lineage of
  \<open>orders_clean\<close>, it returns the descendant \<open>orders_agg\<close> and not the ancestor
  \<open>orders\<close>.
\<close>

theorem upstream_request_nodes:
  "map (\<lambda>n. (n_name n, n_depth n))
     (nodes (json (mermaid_POST toUpperCase (Inr orders_store)
        (request ''orders_clean'' ''silver'' ''upstream''))))
   = [(''orders_clean'', 0), (''orders_agg'', 1)]"
  by code_simp

text \<open>
  C3. On a cycle the traversal from A should end without entering A again. It ends
  (no node lies deeper than 3), but on the cycle A, B, C the node list holds A at
  depth 0 and at depth 3.
\<close>

theorem cycle_nodes:
  "map (\<lambda>n. (n_name n, n_depth n))
     (nodes (json (mermaid_POST toUpperCase (Inr cycle_store) (request ''A'' ''bronze'' ''both''))))
   = [(''A'', 0), (''A'', 3), (''B'', 1), (''C'', 2)]"
  by code_simp

section \<open>The lineage-chain handler on a reachable store\<close>


lemma lineage_chain_iter_Nil: "lineage_chain_iter st [] = []"
  by (simp add: lineage_chain_iter.simps)

lemma mermaid_POST_ok:
  assumes "status (mermaid_POST toUpperCase d body) = 200"
  shows "\<exists>st acc. d = Inr st \<and> truthy (table_name body) \<and> truthy (layer body)
     \<and> nodes (json (mermaid_POST toUpperCase d body)) =
         build_nodes st (lineage_chain st (or_empty (table_name body)) (or_empty (layer body)))
     \<and> edges (json (mermaid_POST toUpperCase d body)) = build_edges st (nodes (json (mermaid_POST toUpperCase d body)))
     \<and> nodesByLayer (nodes (json (mermaid_POST toUpperCase d body))) = Inr acc
     \<and> mermaid_syntax (json (mermaid_POST toUpperCase d body)) =
         mermaidSyntax toUpperCase acc (edges (json (mermaid_POST toUpperCase d body)))"
  using assms
  by (auto simp: mermaid_POST_def database_error_def Let_def split: if_splits sum.splits)

lemma lineage_seed_empty:
  assumes "\<forall>t\<in>set (tables st). \<forall>l\<in>set (layers st).
             \<not> (t_layer_id t = l_id l \<and> t_name t = tn \<and> l_name l = ly)"
  shows "lineage_seed st tn ly = []"
  using assms by (auto simp: lineage_seed_def)

text \<open>
  C7. A request that names a table and a layer, on a store that answers and holds no
  table of that name in that layer, gets the success response with no node, no
  edge, depth 0, no layer and no \<open>error\<close> field; its diagram is the header and the
  style block.
\<close>

theorem seed_absent_empty_graph:
  assumes "truthy (table_name body)" and "truthy (layer body)"
    and "\<forall>t\<in>set (tables st). \<forall>l\<in>set (layers st).
           \<not> (t_layer_id t = l_id l \<and> t_name t = or_empty (table_name body)
              \<and> l_name l = or_empty (layer body))"
  shows "mermaid_POST toUpperCase (Inr st) body =
           \<lparr>status = 200,
            json = \<lparr>nodes = [], edges = [],
                    mermaid_syntax = ''graph LR\<newline>\<newline>'' @ style_block,
                    selected_table = or_empty (table_name body),
                    selected_layer = or_empty (layer body),
                    total_depth = 0, layers_involved = [], error = None\<rparr>\<rparr>"
proof -
  have "lineage_chain st (or_empty (table_name body)) (or_empty (layer body)) = []"
    using lineage_seed_empty [OF assms(3)]
    by (simp add: lineage_chain_def lineage_chain_iter_Nil)
  then show ?thesis
    using assms(1,2)
    by (simp add: mermaid_POST_def build_nodes_def nodesByLayer_def mermaidSyntax_def
        Object_entries_def totalDepth_def layersInvolved_def)
qed

theorem seed_absent_witness:
  "mermaid_POST ascii_toUpperCase (Inr orders_store) (request ''customers'' ''bronze'' ''both'') =
           \<lparr>status = 200,
            json = \<lparr>nodes = [], edges = [],
                    mermaid_syntax = ''graph LR\<newline>\<newline>'' @ style_block,
                    selected_table = ''customers'',
                    selected_layer = ''bronze'',
                    total_depth = 0, layers_involved = [], error = None\<rparr>\<rparr>"
  using seed_absent_empty_graph
    [where toUpperCase = ascii_toUpperCase and st = orders_store
       and body = "request ''customers'' ''bronze'' ''both''"]
  by (simp add: request_def orders_store_def truthy_def or_empty_def three_layers_def mk_table_def)

text \<open>
  C8. The diagram text is a function of the assembled graph alone: two successful
  resolutions, on any two stores and requests, that return the same node list and
  the same edge list return the same \<open>mermaid_syntax\<close>.
\<close>

theorem diagram_deterministic:
  assumes "status (mermaid_POST toUpperCase d1 b1) = 200" and "status (mermaid_POST toUpperCase d2 b2) = 200"
    and "nodes (json (mermaid_POST toUpperCase d1 b1)) = nodes (json (mermaid_POST toUpperCase d2 b2))"
    and "edges (json (mermaid_POST toUpperCase d1 b1)) = edges (json (mermaid_POST toUpperCase d2 b2))"
  shows "mermaid_syntax (json (mermaid_POST toUpperCase d1 b1)) = mermaid_syntax (json (mermaid_POST toUpperCase d2 b2))"
proof -
  from mermaid_POST_ok [OF assms(1)] obtain acc1 where
    1: "nodesByLayer (nodes (json (mermaid_POST toUpperCase d1 b1))) = Inr acc1"
       "mermaid_syntax (json (mermaid_POST toUpperCase d1 b1)) = mermaidSyntax toUpperCase acc1 (edges (json (mermaid_POST toUpperCase d1 b1)))"
    by blast
  from mermaid_POST_ok [OF assms(2)] obtain acc2 where
    2: "nodesByLayer (nodes (json (mermaid_POST toUpperCase d2 b2))) = Inr acc2"
       "mermaid_syntax (json (mermaid_POST toUpperCase d2 b2)) = mermaidSyntax toUpperCase acc2 (edges (json (mermaid_POST toUpperCase d2 b2)))"
    by blast
  from 1(1) 2(1) assms(3) have "acc1 = acc2" by simp
  with 1(2) 2(2) assms(4) show ?thesis by simp
qed

theorem diagram_deterministic_witness:
  "status (mermaid_POST ascii_toUpperCase (Inr orders_store) (request ''orders'' ''bronze'' ''both'')) = 200
   \<and> status (mermaid_POST ascii_toUpperCase (Inr (orders_store\<lparr>table_relationships := []\<rparr>))
         (request ''orders'' ''bronze'' ''upstream'')) = 200
   \<and> mermaid_syntax (json (mermaid_POST ascii_toUpperCase (Inr orders_store)
         (request ''orders'' ''bronze'' ''both'')))
     = mermaid_syntax (json (mermaid_POST ascii_toUpperCase (Inr (orders_store\<lparr>table_relationships := []\<rparr>))
         (request ''orders'' ''bronze'' ''upstream'')))"
proof -
  let ?r1 = "mermaid_POST ascii_toUpperCase (Inr orders_store) (request ''orders'' ''bronze'' ''both'')"
  let ?r2 = "mermaid_POST ascii_toUpperCase (Inr (orders_store\<lparr>table_relationships := []\<rparr>))
               (request ''orders'' ''bronze'' ''upstream'')"
  have s1: "status ?r1 = 200" by code_simp
  have s2: "status ?r2 = 200" by code_simp
  have n: "nodes (json ?r1) = nodes (json ?r2)" by code_simp
  have e: "edges (json ?r1) = edges (json ?r2)" by code_simp
  from diagram_deterministic [OF s1 s2 n e] s1 s2 show ?thesis by simp
qed

lemma build_edges_concat:
  "build_edges st ns =
     concat (map (\<lambda>i. edge_between st (ns ! i) (ns ! Suc i)) [0..<length ns - 1])"
proof (induction st ns rule: build_edges.induct)
  case (1 st s t rest)
  have "[0..<length (s # t # rest) - 1] = 0 # map Suc [0..<length (t # rest) - 1]"
    by (simp add: upt_conv_Cons map_Suc_upt del: upt_Suc)
  then show ?case using 1 by (simp add: comp_def del: upt_Suc)
qed simp_all

lemma edge_between_length: "length (edge_between st s t) \<le> 1"
  by (simp add: edge_between_def split: list.splits)

lemma edge_between_mem:
  assumes "e \<in> set (edge_between st s t)"
  shows "e = \<lparr>e_source = n_name s, e_target = n_name t, e_source_layer = n_layer s,
               e_target_layer = n_layer t,
               e_transformation_type = hd (transformation_between st (n_id s) (n_id t))\<rparr>
         \<and> transformation_between st (n_id s) (n_id t) \<noteq> []"
  using assms
  by (cases "transformation_between st (n_id s) (n_id t)") (auto simp: edge_between_def)

lemma transformation_between_ex:
  assumes "transformation_between st sid tid \<noteq> []"
  shows "\<exists>t\<in>set (transformations st). x_source_table_id t = sid \<and> x_target_table_id t = tid"
proof -
  from assms obtain y where "y \<in> set (transformation_between st sid tid)"
    by (cases "transformation_between st sid tid") auto
  then show ?thesis by (auto simp: transformation_between_def split: if_splits)
qed

lemma nodes_sorted:
  "sorted (map (\<lambda>n. (n_layer_id n, n_name n)) (build_nodes st (lineage_chain st tn ly)))"
proof -
  have "map (\<lambda>n. (n_layer_id n, n_name n)) (build_nodes st rows)
        = map (\<lambda>r. (lr_layer_id r, lr_name r)) rows" for rows
    by (simp add: build_nodes_def node_of_row_def comp_def)
  then show ?thesis by (simp add: lineage_chain_def)
qed


text \<open>
  C9. In a successful lineage-chain response the nodes are ordered by (layer id,
  table name), and the edge list is made from the consecutive pairs of that list
  alone: pair \<open>i\<close> contributes at most one edge, from node \<open>i\<close> to node \<open>i + 1\<close>,
  labelled with the first transformation the store returns for that pair, and only
  if the store holds a transformation from the one to the other.
\<close>

theorem edges_join_consecutive_nodes:
  fixes toUpperCase st body
  defines "ns \<equiv> nodes (json (mermaid_POST toUpperCase (Inr st) body))"
    and "es \<equiv> edges (json (mermaid_POST toUpperCase (Inr st) body))"
  assumes ok: "status (mermaid_POST toUpperCase (Inr st) body) = 200"
  shows "sorted (map (\<lambda>n. (n_layer_id n, n_name n)) ns)
    \<and> es = concat (map (\<lambda>i. edge_between st (ns ! i) (ns ! Suc i)) [0..<length ns - 1])
    \<and> (\<forall>i. length (edge_between st (ns ! i) (ns ! Suc i)) \<le> 1)
    \<and> (\<forall>e\<in>set es. \<exists>i. Suc i < length ns
          \<and> e = \<lparr>e_source = n_name (ns ! i), e_target = n_name (ns ! Suc i),
                  e_source_layer = n_layer (ns ! i), e_target_layer = n_layer (ns ! Suc i),
                  e_transformation_type =
                    hd (transformation_between st (n_id (ns ! i)) (n_id (ns ! Suc i)))\<rparr>
          \<and> (\<exists>t\<in>set (transformations st).
                x_source_table_id t = n_id (ns ! i) \<and> x_target_table_id t = n_id (ns ! Suc i)))"
proof -
  from mermaid_POST_ok [OF ok] have
    n: "ns = build_nodes st (lineage_chain st (or_empty (table_name body)) (or_empty (layer body)))"
    and e: "es = build_edges st ns"
    by (auto simp: ns_def es_def)
  have 1: "sorted (map (\<lambda>n. (n_layer_id n, n_name n)) ns)"
    unfolding n by (rule nodes_sorted)
  have 2: "es = concat (map (\<lambda>i. edge_between st (ns ! i) (ns ! Suc i)) [0..<length ns - 1])"
    unfolding e by (rule build_edges_concat)
  have 4: "\<exists>i. Suc i < length ns
          \<and> e = \<lparr>e_source = n_name (ns ! i), e_target = n_name (ns ! Suc i),
                  e_source_layer = n_layer (ns ! i), e_target_layer = n_layer (ns ! Suc i),
                  e_transformation_type =
                    hd (transformation_between st (n_id (ns ! i)) (n_id (ns ! Suc i)))\<rparr>
          \<and> (\<exists>t\<in>set (transformations st).
                x_source_table_id t = n_id (ns ! i) \<and> x_target_table_id t = n_id (ns ! Suc i))"
    if "e \<in> set es" for e
  proof -
    from that 2 obtain i where i: "i < length ns - 1"
      and mem: "e \<in> set (edge_between st (ns ! i) (ns ! Suc i))"
      by auto
    from i have "Suc i < length ns" by simp
    with edge_between_mem [OF mem] transformation_between_ex show ?thesis by blast
  qed
  from 1 2 4 edge_between_length show ?thesis by blast
qed

theorem edges_join_consecutive_nodes_witness:
  "status (mermaid_POST ascii_toUpperCase (Inr orders_store) (request ''orders'' ''bronze'' ''both'')) = 200
   \<and> map (\<lambda>e. (e_source e, e_target e, e_transformation_type e))
       (edges (json (mermaid_POST ascii_toUpperCase (Inr orders_store) (request ''orders'' ''bronze'' ''both''))))
     = [(''orders'', ''orders_clean'', Some ''cleansing''),
        (''orders_clean'', ''orders_agg'', Some ''aggregation'')]
   \<and> sorted (map (\<lambda>n. (n_layer_id n, n_name n))
       (nodes (json (mermaid_POST ascii_toUpperCase (Inr orders_store) (request ''orders'' ''bronze'' ''both'')))))"
proof -
  have ok: "status (mermaid_POST ascii_toUpperCase (Inr orders_store) (request ''orders'' ''bronze'' ''both'')) = 200"
    by code_simp
  have es: "map (\<lambda>e. (e_source e, e_target e, e_transformation_type e))
       (edges (json (mermaid_POST ascii_toUpperCase (Inr orders_store) (request ''orders'' ''bronze'' ''both''))))
     = [(''orders'', ''orders_clean'', Some ''cleansing''),
        (''orders_clean'', ''orders_agg'', Some ''aggregation'')]"
    by code_simp
  from edges_join_consecutive_nodes [OF ok] ok es show ?thesis by blast
qed

subsection \<open>One subgraph per layer\<close>






lemma mset_Object_entries: "mset (Object_entries acc) = mset acc"
  by (simp add: Object_entries_def case_prod_unfold)

lemma Object_entries_keys:
  assumes "distinct (map fst acc)"
  shows "distinct (map fst (Object_entries acc))"
    and "set (map fst (Object_entries acc)) = set (map fst acc)"
proof -
  have "mset (map fst (Object_entries acc)) = mset (map fst acc)"
    using mset_Object_entries [of acc] by (metis mset_map)
  then show "distinct (map fst (Object_entries acc))"
    using assms by (metis mset_eq_imp_distinct_iff)
  from mset_Object_entries [of acc] have "set (Object_entries acc) = set acc" by (rule mset_eq_setD)
  then show "set (map fst (Object_entries acc)) = set (map fst acc)" by simp
qed








text \<open>
  A layer called \<open>constructor\<close>: the table is found, grouping throws, and the response
  is the one of the \<open>catch\<close> block.
\<close>

lemma constructor_layer_response:
  "mermaid_POST ascii_toUpperCase (Inr constructor_store)
       (request ''kpis'' ''constructor'' ''both'')
   = database_error ''acc[node.layer].push is not a function''"
  by code_simp

section \<open>The relationship lookup\<close>

















section \<open>Validation and store failures\<close>













section \<open>The transformation lookup\<close>

lemma transformation_of_row_confidence: "tf_confidence_score (transformation_of_row j) = 1"
  by (cases j) (simp add: transformation_of_row_def)

text \<open>
  C10. Whatever the store holds and whichever query mode the body selects, every
  transformation of the response has confidence 1, and the summary's average
  confidence is 1 whenever the response holds a transformation.
\<close>

theorem transformation_confidence_constant:
  "(\<forall>t\<in>set (tr_transformations (json (transformations_POST d body))). tf_confidence_score t = 1)
   \<and> (tr_transformations (json (transformations_POST d body)) \<noteq> [] \<longrightarrow>
        ts_avg_confidence (tr_summary (json (transformations_POST d body))) = 1)"
  by (cases d)
    (auto simp: transformations_POST_def transformation_failure_def Let_def
      transformation_of_row_confidence)

theorem transformation_confidence_constant_witness:
  "tr_transformations (json (transformations_POST (Inr orders_store)
      \<lparr>b_table_name = Some ''orders_clean'', b_table_id = None, b_source_layer = None,
       b_target_layer = None, b_direction = None\<rparr>)) \<noteq> []
   \<and> ts_avg_confidence (tr_summary (json (transformations_POST (Inr orders_store)
      \<lparr>b_table_name = Some ''orders_clean'', b_table_id = None, b_source_layer = None,
       b_target_layer = None, b_direction = None\<rparr>))) = 1
   \<and> list_all (\<lambda>t. tf_confidence_score t = 1)
       (tr_transformations (json (transformations_POST (Inr orders_store)
      \<lparr>b_table_name = Some ''orders_clean'', b_table_id = None, b_source_layer = None,
       b_target_layer = None, b_direction = None\<rparr>)))"
proof -
  let ?b = "\<lparr>b_table_name = Some ''orders_clean'', b_table_id = None, b_source_layer = None,
       b_target_layer = None, b_direction = None\<rparr>"
  have ne: "tr_transformations (json (transformations_POST (Inr orders_store) ?b)) \<noteq> []"
    by code_simp
  from transformation_confidence_constant [of "Inr orders_store" ?b] ne
  show ?thesis by (simp add: list_all_iff)
qed


end
